theory Spec2Isabelle
  imports Main "HOL-Library.Word"
begin

unbundle bit_operations_syntax

section \<open>Machine types\<close>

text \<open>
  The driver (drivers/pwm/pwm-xlnx.c) computes with \<open>int\<close> (32 bit, signed),
  \<open>unsigned long long\<close> (64 bit) and \<open>unsigned long\<close>, whose width is that of
  the kernel it is built for: 32 bit on Zynq and MicroBlaze, 64 bit on ZynqMP.  A value of
  type \<open>unsigned long\<close> is kept in a 64-bit word; on a 32-bit kernel an assignment to
  it keeps the low 32 bits only.  An \<open>int\<close> is a 32-bit word read in two's
  complement (\<open>sint\<close>, and \<open>scast\<close> to widen it).
\<close>

type_synonym u32 = "32 word"
type_synonym u64 = "64 word"
type_synonym s32 = "32 word"

datatype abi = ILP32 | LP64

definition to_ulong :: "abi \<Rightarrow> u64 \<Rightarrow> u64" where
  "to_ulong a v = (case a of ILP32 \<Rightarrow> take_bit 32 v | LP64 \<Rightarrow> v)"

section \<open>Register offsets and control bits\<close>

definition TCSR0 :: u32 where "TCSR0 = 0x00"
definition TLR0 :: u32 where "TLR0 = 0x04"
definition TCR0 :: u32 where "TCR0 = 0x08"
definition TCSR1 :: u32 where "TCSR1 = 0x10"
definition TLR1 :: u32 where "TLR1 = 0x14"
definition TCR1 :: u32 where "TCR1 = 0x18"

definition TCSR_MDT :: u64 where "TCSR_MDT = push_bit 0 1"
definition TCSR_UDT :: u64 where "TCSR_UDT = push_bit 1 1"
definition TCSR_GENT :: u64 where "TCSR_GENT = push_bit 2 1"
definition TCSR_CAPT :: u64 where "TCSR_CAPT = push_bit 3 1"
definition TCSR_ARHT :: u64 where "TCSR_ARHT = push_bit 4 1"
definition TCSR_LOAD :: u64 where "TCSR_LOAD = push_bit 5 1"
definition TCSR_ENIT :: u64 where "TCSR_ENIT = push_bit 6 1"
definition TCSR_ENT :: u64 where "TCSR_ENT = push_bit 7 1"
definition TCSR_TINT :: u64 where "TCSR_TINT = push_bit 8 1"
definition TCSR_PWMA :: u64 where "TCSR_PWMA = push_bit 9 1"
definition TCSR_ENALL :: u64 where "TCSR_ENALL = push_bit 10 1"

section \<open>The device\<close>

text \<open>
  What the driver does to the outside is recorded as a list of events, oldest first: requests
  to the clock framework and accesses to the memory-mapped registers.
\<close>

datatype event =
    ClkEnable
  | ClkDisable
  | RegWrite u32 u32
  | RegRead u32

text \<open>
  \<open>struct xlnx_pwm_chip\<close>: the register window at \<open>base\<close> and the clock.

  Modelled from the spec: the clock framework (\<open>clk_get_rate\<close>,
  \<open>clk_prepare_enable\<close>, \<open>clk_disable_unprepare\<close>) and the register
  accessors (\<open>readl\<close>, \<open>writel\<close>) are not among the sources.  The
  ClockSource of the spec gives a rate in Hz and counts references: \<open>clk_refs\<close> is
  the balance of references taken and released, \<open>clk_fail\<close> the error code with
  which a request to enable the clock fails (0 when it succeeds).  The RegisterBank of the
  spec is a set of 32-bit registers addressed by offset: \<open>regs\<close> holds the value
  last written to each.
\<close>

record xlnx_pwm_chip =
  regs :: "u32 \<Rightarrow> u32"
  clk_rate :: u64
  clk_refs :: int
  clk_fail :: int
  trace :: "event list"

definition clk_get_rate :: "abi \<Rightarrow> xlnx_pwm_chip \<Rightarrow> u64" where
  "clk_get_rate a x = to_ulong a (clk_rate x)"

definition clk_prepare_enable :: "xlnx_pwm_chip \<Rightarrow> int \<times> xlnx_pwm_chip" where
  "clk_prepare_enable x =
     (if clk_fail x = 0
      then (0, x\<lparr>clk_refs := clk_refs x + 1, trace := trace x @ [ClkEnable]\<rparr>)
      else (clk_fail x, x\<lparr>trace := trace x @ [ClkEnable]\<rparr>))"

definition clk_disable_unprepare :: "xlnx_pwm_chip \<Rightarrow> xlnx_pwm_chip" where
  "clk_disable_unprepare x =
     x\<lparr>clk_refs := clk_refs x - 1, trace := trace x @ [ClkDisable]\<rparr>"

definition readl :: "u32 \<Rightarrow> xlnx_pwm_chip \<Rightarrow> u32 \<times> xlnx_pwm_chip" where
  "readl offset x = (regs x offset, x\<lparr>trace := trace x @ [RegRead offset]\<rparr>)"

text \<open>
  \<open>writel_xlnx(xlnx, data, offset)\<close>: \<open>data\<close> is an \<open>unsigned long\<close>,
  and \<open>writel\<close> stores its low 32 bits.
\<close>

definition writel_xlnx :: "u64 \<Rightarrow> u32 \<Rightarrow> xlnx_pwm_chip \<Rightarrow> xlnx_pwm_chip" where
  "writel_xlnx data offset x =
     x\<lparr>regs := (regs x)(offset := ucast data),
       trace := trace x @ [RegWrite offset (ucast data)]\<rparr>"

section \<open>xlnx_pwm_config\<close>

text \<open>
  Lines 61-62 and 64-65: \<open>c = clkrate * ns; do_div(c, 1000000000);\<close>.  The
  \<open>int\<close> is converted to \<open>unsigned long long\<close> (sign extension), the product
  is taken in 64 bits, and \<open>do_div\<close> leaves the unsigned quotient in \<open>c\<close>.
\<close>

definition ns_to_cycles :: "u64 \<Rightarrow> s32 \<Rightarrow> u64" where
  "ns_to_cycles clkrate ns = (clkrate * scast ns) div 1000000000"

text \<open>
  \<open>xlnx_pwm_config\<close> is embedded in two parts.  The first is the computation of
  lines 58-73: the values the function has in its locals \<open>period_cycles\<close>,
  \<open>duty_cycles\<close>, \<open>tcsr0\<close> and \<open>tcsr1\<close> when it starts to
  write.  The two tests read \<open>c\<close>, the 64-bit quotient of the duty, not
  \<open>duty_cycles\<close>; \<open>period_cycles\<close> is widened again for the second.
\<close>

record timer_program =
  period_cycles :: u64
  duty_cycles :: u64
  tcsr0 :: u64
  tcsr1 :: u64

definition xlnx_pwm_plan :: "abi \<Rightarrow> u64 \<Rightarrow> s32 \<Rightarrow> s32 \<Rightarrow> timer_program" where
  "xlnx_pwm_plan a clkrate duty_ns period_ns =
     (let t0 = TCSR_UDT OR TCSR_GENT OR TCSR_ARHT OR TCSR_PWMA;
          t1 = TCSR_UDT OR TCSR_GENT OR TCSR_ARHT OR TCSR_PWMA;
          pc = to_ulong a (ns_to_cycles clkrate period_ns);
          c = ns_to_cycles clkrate duty_ns;
          dc = to_ulong a c
      in if c = 0 then
           \<lparr>period_cycles = pc, duty_cycles = dc,
            tcsr0 = t0 AND NOT TCSR_GENT, tcsr1 = t1\<rparr>
         else if c = pc then
           \<lparr>period_cycles = pc, duty_cycles = dc,
            tcsr0 = t0, tcsr1 = t1 AND NOT TCSR_GENT\<rparr>
         else
           \<lparr>period_cycles = pc, duty_cycles = dc, tcsr0 = t0, tcsr1 = t1\<rparr>)"

text \<open>
  The second part is lines 80-97: the writes, between the two requests to the clock.  The
  result of \<open>clk_prepare_enable\<close> is dropped, as in the source, and the function
  returns 0 (line 99).
\<close>

definition xlnx_pwm_program :: "timer_program \<Rightarrow> xlnx_pwm_chip \<Rightarrow> xlnx_pwm_chip" where
  "xlnx_pwm_program p x0 =
     (let x1 = snd (clk_prepare_enable x0);
          x2 = writel_xlnx 0 TCSR0 x1;
          x3 = writel_xlnx 0 TCSR1 x2;
          x4 = writel_xlnx (period_cycles p) TLR0 x3;
          x5 = writel_xlnx (duty_cycles p) TLR1 x4;
          x6 = writel_xlnx TCSR_LOAD TCSR0 x5;
          x7 = writel_xlnx TCSR_LOAD TCSR1 x6;
          x8 = writel_xlnx (tcsr0 p) TCSR0 x7;
          x9 = writel_xlnx (tcsr1 p) TCSR1 x8;
          x10 = writel_xlnx (tcsr1 p OR TCSR_ENALL) TCSR1 x9
      in clk_disable_unprepare x10)"

text \<open>
  Lines 83-95 alone: the nine writes of \<open>xlnx_pwm_config\<close>, without the two
  requests to the clock around them.
\<close>

definition xlnx_pwm_writes :: "timer_program \<Rightarrow> xlnx_pwm_chip \<Rightarrow> xlnx_pwm_chip" where
  "xlnx_pwm_writes p x1 =
     (let x2 = writel_xlnx 0 TCSR0 x1;
          x3 = writel_xlnx 0 TCSR1 x2;
          x4 = writel_xlnx (period_cycles p) TLR0 x3;
          x5 = writel_xlnx (duty_cycles p) TLR1 x4;
          x6 = writel_xlnx TCSR_LOAD TCSR0 x5;
          x7 = writel_xlnx TCSR_LOAD TCSR1 x6;
          x8 = writel_xlnx (tcsr0 p) TCSR0 x7;
          x9 = writel_xlnx (tcsr1 p) TCSR1 x8
      in writel_xlnx (tcsr1 p OR TCSR_ENALL) TCSR1 x9)"

definition xlnx_pwm_config :: "abi \<Rightarrow> s32 \<Rightarrow> s32 \<Rightarrow> xlnx_pwm_chip \<Rightarrow> int \<times> xlnx_pwm_chip" where
  "xlnx_pwm_config a duty_ns period_ns x =
     (0, xlnx_pwm_program (xlnx_pwm_plan a (clk_get_rate a x) duty_ns period_ns) x)"

section \<open>xlnx_pwm_enable and xlnx_pwm_disable\<close>

definition xlnx_pwm_enable :: "xlnx_pwm_chip \<Rightarrow> int \<times> xlnx_pwm_chip" where
  "xlnx_pwm_enable x0 =
     (let x1 = writel_xlnx 0 TCSR0 x0;
          x2 = writel_xlnx 0 TCSR1 x1;
          (v0, x3) = readl TLR0 x2;
          x4 = writel_xlnx (ucast v0) TLR0 x3;
          (v1, x5) = readl TLR1 x4;
          x6 = writel_xlnx (ucast v1) TLR1 x5;
          x7 = writel_xlnx TCSR_LOAD TCSR0 x6;
          x8 = writel_xlnx TCSR_LOAD TCSR1 x7;
          x9 = writel_xlnx (TCSR_UDT OR TCSR_GENT OR TCSR_ARHT OR TCSR_PWMA) TCSR0 x8;
          x10 = writel_xlnx
                  (TCSR_UDT OR TCSR_GENT OR TCSR_ARHT OR TCSR_PWMA OR TCSR_ENALL) TCSR1 x9
      in clk_prepare_enable x10)"

definition xlnx_pwm_disable :: "xlnx_pwm_chip \<Rightarrow> xlnx_pwm_chip" where
  "xlnx_pwm_disable x0 =
     (let x1 = writel_xlnx 0 TCSR0 x0;
          x2 = writel_xlnx 0 TCSR1 x1
      in clk_disable_unprepare x2)"

text \<open>
  The device as \<open>pwm_probe\<close> leaves it (\<open>devm_kzalloc\<close>, no reference to the
  clock taken), with registers that read zero and a clock of the given rate that can be
  enabled.
\<close>

definition probed :: "u64 \<Rightarrow> xlnx_pwm_chip" where
  "probed rate =
     \<lparr>regs = (\<lambda>_. 0), clk_rate = rate, clk_refs = 0, clk_fail = 0, trace = []\<rparr>"

text \<open>The register writes of a trace, in order.\<close>

fun writes :: "event list \<Rightarrow> (u32 \<times> u32) list" where
  "writes [] = []"
| "writes (RegWrite off v # es) = (off, v) # writes es"
| "writes (_ # es) = writes es"

text \<open>Whether bit 2 (external generate) is set in a control word.\<close>

definition gent_set :: "u64 \<Rightarrow> bool" where
  "gent_set t = (t AND TCSR_GENT = TCSR_GENT)"

text \<open>
  Whether an event is a write to one of the two control registers with bit 10 (enable all
  timers) set.
\<close>

definition carries_enall :: "event \<Rightarrow> bool" where
  "carries_enall e =
     (case e of
        RegWrite off v \<Rightarrow> (off = TCSR0 \<or> off = TCSR1) \<and> v AND ucast TCSR_ENALL \<noteq> 0
      | _ \<Rightarrow> False)"

section \<open>The cycle conversion\<close>

lemmas offset_defs = TCSR0_def TLR0_def TCR0_def TCSR1_def TLR1_def TCR1_def

lemmas tcsr_defs = TCSR_MDT_def TCSR_UDT_def TCSR_GENT_def TCSR_CAPT_def TCSR_ARHT_def
  TCSR_LOAD_def TCSR_ENIT_def TCSR_ENT_def TCSR_TINT_def TCSR_PWMA_def TCSR_ENALL_def

lemma unat_scast_nonneg:
  fixes ns :: s32
  assumes "0 \<le> sint ns"
  shows "unat (scast ns :: u64) = nat (sint ns)"
proof -
  have "sint ns < 2 ^ (LENGTH(32) - 1)"
    by (rule sint_lt)
  then have lt31: "sint ns < 2 ^ 31"
    by simp
  have "(2::int) ^ 31 \<le> 2 ^ 64"
    by (rule power_increasing) simp_all
  with lt31 have lt: "sint ns < 2 ^ 64"
    by (rule order.strict_trans2)
  have "uint (scast ns :: u64) = take_bit LENGTH(64) (sint ns)"
    unfolding scast_eq by (rule uint_word_of_int_eq)
  also have "\<dots> = take_bit 64 (sint ns)"
    by simp
  also have "\<dots> = sint ns"
    using assms lt by (rule take_bit_int_eq_self)
  finally have "uint (scast ns :: u64) = sint ns" .
  then show ?thesis
    by (simp only: unat_eq_nat_uint)
qed


lemma ns_to_cycles_wrap:
  "unat (ns_to_cycles clkrate ns) =
     (unat clkrate * unat (scast ns :: u64)) mod 2 ^ 64 div 1000000000"
proof -
  have "unat (ns_to_cycles clkrate ns) =
      unat (clkrate * scast ns) div unat (1000000000 :: u64)"
    unfolding ns_to_cycles_def by (rule unat_div)
  also have "unat (clkrate * scast ns) =
      unat clkrate * unat (scast ns :: u64) mod 2 ^ LENGTH(64)"
    by (rule unat_word_ariths(2))
  also have "unat (1000000000 :: u64) = 1000000000"
    by simp
  finally show ?thesis
    by simp
qed

lemma ns_to_cycles_floor:
  assumes "0 \<le> sint ns" and "unat clkrate * nat (sint ns) < 2 ^ 64"
  shows "unat (ns_to_cycles clkrate ns) = unat clkrate * nat (sint ns) div 1000000000"
proof -
  have "unat (scast ns :: u64) = nat (sint ns)"
    using assms(1) by (rule unat_scast_nonneg)
  then have "unat (ns_to_cycles clkrate ns) =
      (unat clkrate * nat (sint ns)) mod 2 ^ 64 div 1000000000"
    by (simp only: ns_to_cycles_wrap)
  also have "(unat clkrate * nat (sint ns)) mod 2 ^ 64 = unat clkrate * nat (sint ns)"
    using assms(2) by (rule mod_less)
  finally show ?thesis .
qed

section \<open>Effects of the three operations\<close>

lemma writel_xlnx_sel:
  "regs (writel_xlnx d off x) = (regs x)(off := ucast d)"
  "trace (writel_xlnx d off x) = trace x @ [RegWrite off (ucast d)]"
  "clk_refs (writel_xlnx d off x) = clk_refs x"
  "clk_fail (writel_xlnx d off x) = clk_fail x"
  "clk_rate (writel_xlnx d off x) = clk_rate x"
  by (simp_all add: writel_xlnx_def)

lemma readl_sel:
  "fst (readl off x) = regs x off"
  "regs (snd (readl off x)) = regs x"
  "trace (snd (readl off x)) = trace x @ [RegRead off]"
  "clk_refs (snd (readl off x)) = clk_refs x"
  "clk_fail (snd (readl off x)) = clk_fail x"
  "clk_rate (snd (readl off x)) = clk_rate x"
  by (simp_all add: readl_def)

lemma clk_prepare_enable_sel:
  "fst (clk_prepare_enable x) = clk_fail x"
  "regs (snd (clk_prepare_enable x)) = regs x"
  "trace (snd (clk_prepare_enable x)) = trace x @ [ClkEnable]"
  "clk_refs (snd (clk_prepare_enable x)) =
     (if clk_fail x = 0 then clk_refs x + 1 else clk_refs x)"
  "clk_fail (snd (clk_prepare_enable x)) = clk_fail x"
  "clk_rate (snd (clk_prepare_enable x)) = clk_rate x"
  by (simp_all add: clk_prepare_enable_def)

lemma clk_disable_unprepare_sel:
  "regs (clk_disable_unprepare x) = regs x"
  "trace (clk_disable_unprepare x) = trace x @ [ClkDisable]"
  "clk_refs (clk_disable_unprepare x) = clk_refs x - 1"
  "clk_fail (clk_disable_unprepare x) = clk_fail x"
  "clk_rate (clk_disable_unprepare x) = clk_rate x"
  by (simp_all add: clk_disable_unprepare_def)

lemmas chip_sel =
  writel_xlnx_sel readl_sel clk_prepare_enable_sel clk_disable_unprepare_sel

lemma program_trace:
  "trace (xlnx_pwm_program p x) = trace x @
     [ClkEnable,
      RegWrite TCSR0 0, RegWrite TCSR1 0,
      RegWrite TLR0 (ucast (period_cycles p)), RegWrite TLR1 (ucast (duty_cycles p)),
      RegWrite TCSR0 (ucast TCSR_LOAD), RegWrite TCSR1 (ucast TCSR_LOAD),
      RegWrite TCSR0 (ucast (tcsr0 p)), RegWrite TCSR1 (ucast (tcsr1 p)),
      RegWrite TCSR1 (ucast (tcsr1 p OR TCSR_ENALL)),
      ClkDisable]"
  by (simp add: xlnx_pwm_program_def Let_def chip_sel)

lemma program_regs:
  "regs (xlnx_pwm_program p x) TLR0 = ucast (period_cycles p)"
  "regs (xlnx_pwm_program p x) TLR1 = ucast (duty_cycles p)"
  "regs (xlnx_pwm_program p x) TCSR0 = ucast (tcsr0 p)"
  "regs (xlnx_pwm_program p x) TCSR1 = ucast (tcsr1 p OR TCSR_ENALL)"
  by (simp_all add: xlnx_pwm_program_def Let_def chip_sel offset_defs)

lemma program_refs:
  "clk_refs (xlnx_pwm_program p x) =
     (if clk_fail x = 0 then clk_refs x else clk_refs x - 1)"
  by (simp add: xlnx_pwm_program_def Let_def chip_sel)

lemma disable_regs:
  "regs (xlnx_pwm_disable x) TCSR0 = 0"
  "regs (xlnx_pwm_disable x) TCSR1 = 0"
  by (simp_all add: xlnx_pwm_disable_def Let_def chip_sel offset_defs)

lemma disable_refs: "clk_refs (xlnx_pwm_disable x) = clk_refs x - 1"
  by (simp add: xlnx_pwm_disable_def Let_def chip_sel)

lemma disable_trace:
  "trace (xlnx_pwm_disable x) = trace x @ [RegWrite TCSR0 0, RegWrite TCSR1 0, ClkDisable]"
  by (simp add: xlnx_pwm_disable_def Let_def chip_sel)

lemma program_writes:
  "xlnx_pwm_program p x =
     clk_disable_unprepare (xlnx_pwm_writes p (snd (clk_prepare_enable x)))"
  by (simp add: xlnx_pwm_program_def xlnx_pwm_writes_def Let_def)

lemma writes_refs: "clk_refs (xlnx_pwm_writes p x) = clk_refs x"
  by (simp add: xlnx_pwm_writes_def Let_def chip_sel)

lemma ucast_u32_u64_u32: "(ucast (ucast (v :: u32) :: u64) :: u32) = v"
  by (rule ucast_up_ucast_id) (simp add: is_up)

lemma enable_trace:
  "trace (snd (xlnx_pwm_enable x)) = trace x @
     [RegWrite TCSR0 0, RegWrite TCSR1 0,
      RegRead TLR0, RegWrite TLR0 (regs x TLR0),
      RegRead TLR1, RegWrite TLR1 (regs x TLR1),
      RegWrite TCSR0 (ucast TCSR_LOAD), RegWrite TCSR1 (ucast TCSR_LOAD),
      RegWrite TCSR0 (ucast (TCSR_UDT OR TCSR_GENT OR TCSR_ARHT OR TCSR_PWMA)),
      RegWrite TCSR1
        (ucast (TCSR_UDT OR TCSR_GENT OR TCSR_ARHT OR TCSR_PWMA OR TCSR_ENALL)),
      ClkEnable]"
  by (simp add: xlnx_pwm_enable_def Let_def split_def chip_sel offset_defs
      ucast_u32_u64_u32)

lemma enable_result: "fst (xlnx_pwm_enable x) = clk_fail x"
  by (simp add: xlnx_pwm_enable_def Let_def split_def chip_sel)

lemma enable_refs:
  "clk_refs (snd (xlnx_pwm_enable x)) =
     (if clk_fail x = 0 then clk_refs x + 1 else clk_refs x)"
  by (simp add: xlnx_pwm_enable_def Let_def split_def chip_sel)

lemma enable_clk_sel:
  "clk_fail (snd (xlnx_pwm_enable x)) = clk_fail x"
  "clk_rate (snd (xlnx_pwm_enable x)) = clk_rate x"
  by (simp_all add: xlnx_pwm_enable_def Let_def split_def chip_sel)

lemma writes_append: "writes (es @ fs) = writes es @ writes fs"
  by (induction es rule: writes.induct) simp_all

section \<open>Truncation to the width of a register\<close>

lemma to_ulong_mod: "unat (ucast (to_ulong a w) :: u32) = unat w mod 2 ^ 32"
  by (cases a) (simp_all add: to_ulong_def unsigned_ucast_eq take_bit_eq_mod unat_mod)

lemma ucast_to_ulong: "(ucast (to_ulong a w) :: u32) = ucast w"
proof -
  have "unat (ucast (to_ulong a w) :: u32) = unat w mod 2 ^ 32"
    by (rule to_ulong_mod)
  also have "\<dots> = unat (ucast w :: u32)"
    by (simp add: unsigned_ucast_eq take_bit_eq_mod)
  finally show ?thesis
    by (rule word_unat_eq_iff [THEN iffD2])
qed

lemma to_ulong_small: "unat w < 2 ^ 32 \<Longrightarrow> to_ulong a w = w"
  by (cases a) (simp_all add: to_ulong_def word_unat_eq_iff take_bit_eq_mod unat_mod)

section \<open>The program and its writes\<close>

lemma gent_baseline:
  "gent_set (TCSR_UDT OR TCSR_GENT OR TCSR_ARHT OR TCSR_PWMA)"
  by (simp add: gent_set_def tcsr_defs)

lemma gent_cleared:
  "\<not> gent_set ((TCSR_UDT OR TCSR_GENT OR TCSR_ARHT OR TCSR_PWMA) AND NOT TCSR_GENT)"
  by (simp add: gent_set_def tcsr_defs)

lemma ns_to_cycles_zero: "ns_to_cycles clkrate 0 = 0"
  by (simp add: ns_to_cycles_def)

lemma plan_cycles:
  "period_cycles (xlnx_pwm_plan a clkrate duty_ns period_ns) =
     to_ulong a (ns_to_cycles clkrate period_ns)"
  "duty_cycles (xlnx_pwm_plan a clkrate duty_ns period_ns) =
     to_ulong a (ns_to_cycles clkrate duty_ns)"
  by (simp_all add: xlnx_pwm_plan_def Let_def)

lemma plan_tcsr_cases:
  "(tcsr0 (xlnx_pwm_plan a clkrate duty_ns period_ns) = 530 \<and>
    tcsr1 (xlnx_pwm_plan a clkrate duty_ns period_ns) = 534) \<or>
   (tcsr0 (xlnx_pwm_plan a clkrate duty_ns period_ns) = 534 \<and>
    tcsr1 (xlnx_pwm_plan a clkrate duty_ns period_ns) = 530) \<or>
   (tcsr0 (xlnx_pwm_plan a clkrate duty_ns period_ns) = 534 \<and>
    tcsr1 (xlnx_pwm_plan a clkrate duty_ns period_ns) = 534)"
  by (simp add: xlnx_pwm_plan_def Let_def tcsr_defs)

lemma no_enable_bits:
  "(530 :: u64) AND (TCSR_ENT OR TCSR_ENALL) = 0"
  "(534 :: u64) AND (TCSR_ENT OR TCSR_ENALL) = 0"
  "TCSR_LOAD AND (TCSR_ENT OR TCSR_ENALL) = 0"
  by (simp_all add: tcsr_defs)

lemma config_sel:
  "fst (xlnx_pwm_config a duty_ns period_ns x) = 0"
  "snd (xlnx_pwm_config a duty_ns period_ns x) =
     xlnx_pwm_program (xlnx_pwm_plan a (clk_get_rate a x) duty_ns period_ns) x"
  by (simp_all add: xlnx_pwm_config_def)

lemma config_writes:
  "writes (trace (snd (xlnx_pwm_config a duty_ns period_ns x))) =
     writes (trace x) @
     [(TCSR0, 0), (TCSR1, 0),
      (TLR0, ucast (ns_to_cycles (clk_get_rate a x) period_ns)),
      (TLR1, ucast (ns_to_cycles (clk_get_rate a x) duty_ns)),
      (TCSR0, ucast TCSR_LOAD), (TCSR1, ucast TCSR_LOAD),
      (TCSR0, ucast (tcsr0 (xlnx_pwm_plan a (clk_get_rate a x) duty_ns period_ns))),
      (TCSR1, ucast (tcsr1 (xlnx_pwm_plan a (clk_get_rate a x) duty_ns period_ns))),
      (TCSR1, ucast (tcsr1 (xlnx_pwm_plan a (clk_get_rate a x) duty_ns period_ns)
                 OR TCSR_ENALL))]"
  by (simp add: config_sel program_trace writes_append plan_cycles ucast_to_ulong)

lemma carries_enall_simps:
  "carries_enall ClkEnable = False"
  "carries_enall ClkDisable = False"
  "carries_enall (RegRead off) = False"
  "carries_enall (RegWrite TLR0 v) = False"
  "carries_enall (RegWrite TLR1 v) = False"
  "carries_enall (RegWrite TCSR0 v) = (v AND ucast TCSR_ENALL \<noteq> 0)"
  "carries_enall (RegWrite TCSR1 v) = (v AND ucast TCSR_ENALL \<noteq> 0)"
  by (simp_all add: carries_enall_def offset_defs)

lemma program_enall_once:
  assumes "(tcsr0 p = 530 \<or> tcsr0 p = 534) \<and> (tcsr1 p = 530 \<or> tcsr1 p = 534)"
  shows "filter carries_enall (drop (length (trace x)) (trace (xlnx_pwm_program p x))) =
           [RegWrite TCSR1 (ucast (tcsr1 p OR TCSR_ENALL))]"
  using assms by (auto simp add: program_trace carries_enall_simps tcsr_defs)

lemma rate_probed: "clk_get_rate LP64 (probed rate) = rate"
  by (simp add: clk_get_rate_def probed_def to_ulong_def)

lemma rate_probed32: "clk_get_rate ILP32 (probed 4000000000) = 4000000000"
  by (simp add: clk_get_rate_def probed_def to_ulong_def)

lemma plan_5ms_20ms:
  "xlnx_pwm_plan LP64 100000000 5000000 20000000 =
     \<lparr>period_cycles = 2000000, duty_cycles = 500000, tcsr0 = 534, tcsr1 = 534\<rparr>"
  by (simp add: xlnx_pwm_plan_def ns_to_cycles_def to_ulong_def tcsr_defs Let_def)

section \<open>The load registers\<close>

text \<open>
  C1 (as the code has it): for every request, the load register at offset 0x04 (TLR0)
  receives the computed period cycles and the load register at offset 0x14 (TLR1) the
  computed duty cycles, each as the 32 bits that \<open>writel\<close> stores; the counts are
  the two quotients, held in an \<open>unsigned long\<close>.  The control words keep their
  places: the word whose generate bit is cleared for a duty of 0 goes to offset 0x00.
\<close>

theorem config_load_registers:
  "regs (snd (xlnx_pwm_config a duty_ns period_ns x)) TLR0 =
     ucast (period_cycles (xlnx_pwm_plan a (clk_get_rate a x) duty_ns period_ns)) \<and>
   regs (snd (xlnx_pwm_config a duty_ns period_ns x)) TLR1 =
     ucast (duty_cycles (xlnx_pwm_plan a (clk_get_rate a x) duty_ns period_ns)) \<and>
   period_cycles (xlnx_pwm_plan a (clk_get_rate a x) duty_ns period_ns) =
     to_ulong a (ns_to_cycles (clk_get_rate a x) period_ns) \<and>
   duty_cycles (xlnx_pwm_plan a (clk_get_rate a x) duty_ns period_ns) =
     to_ulong a (ns_to_cycles (clk_get_rate a x) duty_ns)"
proof -
  let ?p = "xlnx_pwm_plan a (clk_get_rate a x) duty_ns period_ns"
  have after: "snd (xlnx_pwm_config a duty_ns period_ns x) = xlnx_pwm_program ?p x"
    by (rule config_sel(2))
  have "regs (xlnx_pwm_program ?p x) TLR0 = ucast (period_cycles ?p)"
    and "regs (xlnx_pwm_program ?p x) TLR1 = ucast (duty_cycles ?p)"
    by (rule program_regs)+
  moreover have "period_cycles ?p = to_ulong a (ns_to_cycles (clk_get_rate a x) period_ns)"
    and "duty_cycles ?p = to_ulong a (ns_to_cycles (clk_get_rate a x) duty_ns)"
    by (rule plan_cycles)+
  ultimately show ?thesis
    unfolding after by blast
qed

text \<open>
  At 100 MHz, a duty of 5 ms and a period of 20 ms, the register at 0x14 holds the
  500000 duty cycles and the register at 0x04 the 2000000 period cycles: not the other way
  round.
\<close>

theorem config_load_registers_counterexample:
  "regs (snd (xlnx_pwm_config LP64 5000000 20000000 (probed 100000000))) TLR1 = 500000 \<and>
   regs (snd (xlnx_pwm_config LP64 5000000 20000000 (probed 100000000))) TLR0 = 2000000 \<and>
   period_cycles (xlnx_pwm_plan LP64 100000000 5000000 20000000) = 2000000 \<and>
   duty_cycles (xlnx_pwm_plan LP64 100000000 5000000 20000000) = 500000 \<and>
   regs (snd (xlnx_pwm_config LP64 5000000 20000000 (probed 100000000))) TLR1 \<noteq>
     ucast (period_cycles (xlnx_pwm_plan LP64 100000000 5000000 20000000)) \<and>
   regs (snd (xlnx_pwm_config LP64 5000000 20000000 (probed 100000000))) TLR0 \<noteq>
     ucast (duty_cycles (xlnx_pwm_plan LP64 100000000 5000000 20000000))"
  by (simp add: config_sel program_regs rate_probed plan_5ms_20ms)

section \<open>Always ON\<close>

text \<open>
  C2 (as the code has it): with \<open>duty_ns = period_ns\<close>, when the computed cycle
  count is not 0 and fits the 32-bit counter, the control word for offset 0x10 has its
  generate bit cleared and the one for offset 0x00 has it set.  The test for a duty of 0
  cycles comes first (line 67), so whenever the computed cycle count is 0 (a period shorter
  than one clock cycle) the program is the always-OFF one instead: the generate bit is
  cleared in the word for offset 0x00 and set in the word for offset 0x10.
\<close>

theorem plan_always_on:
  "(ns_to_cycles clkrate period_ns \<noteq> 0 \<and> unat (ns_to_cycles clkrate period_ns) < 2 ^ 32 \<longrightarrow>
      \<not> gent_set (tcsr1 (xlnx_pwm_plan a clkrate period_ns period_ns)) \<and>
      gent_set (tcsr0 (xlnx_pwm_plan a clkrate period_ns period_ns))) \<and>
   (ns_to_cycles clkrate period_ns = 0 \<longrightarrow>
      \<not> gent_set (tcsr0 (xlnx_pwm_plan a clkrate period_ns period_ns)) \<and>
      gent_set (tcsr1 (xlnx_pwm_plan a clkrate period_ns period_ns)))"
proof (intro conjI impI)
  assume on: "ns_to_cycles clkrate period_ns \<noteq> 0 \<and>
    unat (ns_to_cycles clkrate period_ns) < 2 ^ 32"
  then have same: "to_ulong a (ns_to_cycles clkrate period_ns) = ns_to_cycles clkrate period_ns"
    by (simp add: to_ulong_small)
  from on same show "\<not> gent_set (tcsr1 (xlnx_pwm_plan a clkrate period_ns period_ns))"
    using gent_cleared by (simp add: xlnx_pwm_plan_def Let_def)
  from on same show "gent_set (tcsr0 (xlnx_pwm_plan a clkrate period_ns period_ns))"
    using gent_baseline by (simp add: xlnx_pwm_plan_def Let_def)
next
  assume off: "ns_to_cycles clkrate period_ns = 0"
  then show "\<not> gent_set (tcsr0 (xlnx_pwm_plan a clkrate period_ns period_ns))"
    using gent_cleared by (simp add: xlnx_pwm_plan_def Let_def)
  from off show "gent_set (tcsr1 (xlnx_pwm_plan a clkrate period_ns period_ns))"
    using gent_baseline by (simp add: xlnx_pwm_plan_def Let_def)
qed

text \<open>
  Both cases on a 32-bit kernel: at 50 MHz a period and duty of 1 ms are 50000 cycles
  (always ON); at 100 MHz a period and duty of 5 ns are 0 cycles (always OFF).
\<close>

theorem plan_always_on_witness:
  "ns_to_cycles 50000000 1000000 = 50000 \<and>
   \<not> gent_set (tcsr1 (xlnx_pwm_plan ILP32 50000000 1000000 1000000)) \<and>
   gent_set (tcsr0 (xlnx_pwm_plan ILP32 50000000 1000000 1000000)) \<and>
   ns_to_cycles 100000000 5 = 0 \<and>
   \<not> gent_set (tcsr0 (xlnx_pwm_plan ILP32 100000000 5 5)) \<and>
   gent_set (tcsr1 (xlnx_pwm_plan ILP32 100000000 5 5))"
proof -
  have c: "ns_to_cycles 50000000 1000000 = 50000"
    by (simp add: ns_to_cycles_def)
  have z: "ns_to_cycles 100000000 5 = 0"
    by (simp add: ns_to_cycles_def)
  have on: "ns_to_cycles 50000000 1000000 \<noteq> 0 \<and>
      unat (ns_to_cycles 50000000 1000000) < 2 ^ 32"
    by (simp add: c)
  from plan_always_on [of 50000000 1000000 ILP32] on
  have "\<not> gent_set (tcsr1 (xlnx_pwm_plan ILP32 50000000 1000000 1000000)) \<and>
      gent_set (tcsr0 (xlnx_pwm_plan ILP32 50000000 1000000 1000000))"
    by blast
  moreover from plan_always_on [of 100000000 5 ILP32] z
  have "\<not> gent_set (tcsr0 (xlnx_pwm_plan ILP32 100000000 5 5)) \<and>
      gent_set (tcsr1 (xlnx_pwm_plan ILP32 100000000 5 5))"
    by blast
  ultimately show ?thesis
    using c z by blast
qed

text \<open>
  At 100 MHz a period and duty of 5 ns are 0 cycles: the generate bit is cleared in the
  word for offset 0x00 and set in the word for offset 0x10.
\<close>

theorem plan_always_on_counterexample:
  "0 < unat (100000000 :: u64) \<and> 0 < sint (5 :: s32) \<and>
   ns_to_cycles 100000000 5 = 0 \<and>
   gent_set (tcsr1 (xlnx_pwm_plan LP64 100000000 5 5)) \<and>
   \<not> gent_set (tcsr0 (xlnx_pwm_plan LP64 100000000 5 5))"
  by (simp add: xlnx_pwm_plan_def ns_to_cycles_def to_ulong_def tcsr_defs Let_def gent_set_def)

section \<open>Normal modulation\<close>

text \<open>
  C3 (as the code has it): when the computed duty cycles are not 0 and differ from the
  computed period cycles, and the period cycles fit the 32-bit counter, both control words
  have the generate bit set.  The two tests of lines 67 and 70 compare cycle counts, not
  nanoseconds.
\<close>

theorem plan_modulation:
  assumes "ns_to_cycles clkrate duty_ns \<noteq> 0"
    and "ns_to_cycles clkrate duty_ns \<noteq> ns_to_cycles clkrate period_ns"
    and "unat (ns_to_cycles clkrate period_ns) < 2 ^ 32"
  shows "gent_set (tcsr0 (xlnx_pwm_plan a clkrate duty_ns period_ns)) \<and>
         gent_set (tcsr1 (xlnx_pwm_plan a clkrate duty_ns period_ns))"
  using assms gent_baseline
  by (simp add: xlnx_pwm_plan_def Let_def to_ulong_small)

theorem plan_modulation_witness:
  "ns_to_cycles 100000000 5000000 = 500000 \<and>
   ns_to_cycles 100000000 20000000 = 2000000 \<and>
   gent_set (tcsr0 (xlnx_pwm_plan ILP32 100000000 5000000 20000000)) \<and>
   gent_set (tcsr1 (xlnx_pwm_plan ILP32 100000000 5000000 20000000))"
proof -
  have d: "ns_to_cycles 100000000 5000000 = 500000"
    and p: "ns_to_cycles 100000000 20000000 = 2000000"
    by (simp_all add: ns_to_cycles_def)
  have "ns_to_cycles 100000000 5000000 \<noteq> 0"
    and "ns_to_cycles 100000000 5000000 \<noteq> ns_to_cycles 100000000 20000000"
    and "unat (ns_to_cycles 100000000 20000000) < 2 ^ 32"
    by (simp_all add: d p)
  then show ?thesis
    using plan_modulation [of 100000000 5000000 20000000 ILP32] d p by simp
qed

text \<open>
  At 100 MHz, a duty of 5 ns within a period of 20 ns is 0 cycles, and the generate bit
  of the word for offset 0x00 is cleared.
\<close>

theorem plan_modulation_counterexample:
  "0 < unat (100000000 :: u64) \<and> 0 < sint (5 :: s32) \<and> sint (5 :: s32) < sint (20 :: s32) \<and>
   \<not> gent_set (tcsr0 (xlnx_pwm_plan LP64 100000000 5 20))"
  by (simp add: xlnx_pwm_plan_def ns_to_cycles_def to_ulong_def tcsr_defs Let_def gent_set_def)

section \<open>Always OFF\<close>

text \<open>
  C4: with \<open>duty_ns = 0\<close> the program has counter A's generate bit (in the word
  for the control register at 0x00) cleared and counter B's (0x10) set, whatever the rate and
  the period; with \<open>period_ns = 0\<close> as well, both cycle counts are 0 and the
  program is the same always-OFF one.
\<close>

theorem plan_always_off:
  "\<not> gent_set (tcsr0 (xlnx_pwm_plan a clkrate 0 period_ns)) \<and>
   gent_set (tcsr1 (xlnx_pwm_plan a clkrate 0 period_ns)) \<and>
   period_cycles (xlnx_pwm_plan a clkrate 0 0) = 0 \<and>
   duty_cycles (xlnx_pwm_plan a clkrate 0 0) = 0 \<and>
   \<not> gent_set (tcsr0 (xlnx_pwm_plan a clkrate 0 0)) \<and>
   gent_set (tcsr1 (xlnx_pwm_plan a clkrate 0 0))"
  using gent_baseline gent_cleared
  by (cases a) (simp_all add: xlnx_pwm_plan_def ns_to_cycles_zero to_ulong_def Let_def)

section \<open>No validation of the request\<close>

text \<open>
  C5 (as the code has it): \<open>xlnx_pwm_config\<close> checks nothing.  For every
  request, also one with \<open>duty_ns > period_ns\<close> or \<open>period_ns = 0\<close>, it
  returns 0 and writes nine times to the registers.
\<close>

theorem config_no_validation:
  "fst (xlnx_pwm_config a duty_ns period_ns x) = 0 \<and>
   length (writes (trace (snd (xlnx_pwm_config a duty_ns period_ns x)))) =
     length (writes (trace x)) + 9"
proof
  show "fst (xlnx_pwm_config a duty_ns period_ns x) = 0"
    by (rule config_sel(1))
next
  show "length (writes (trace (snd (xlnx_pwm_config a duty_ns period_ns x)))) =
      length (writes (trace x)) + 9"
    unfolding config_writes by simp
qed

text \<open>
  A duty of 2 ns in a period of 1 ns, and a period of 0: both return 0 after nine
  writes.
\<close>

theorem config_no_validation_counterexample:
  "sint (1 :: s32) < sint (2 :: s32) \<and>
   fst (xlnx_pwm_config LP64 2 1 (probed 100000000)) = 0 \<and>
   length (writes (trace (snd (xlnx_pwm_config LP64 2 1 (probed 100000000))))) = 9 \<and>
   fst (xlnx_pwm_config LP64 0 0 (probed 100000000)) = 0 \<and>
   length (writes (trace (snd (xlnx_pwm_config LP64 0 0 (probed 100000000))))) = 9"
  by (simp add: config_sel(1) config_writes probed_def)

section \<open>Cycle counts wider than the counter\<close>

text \<open>
  C6 (as the code has it): \<open>xlnx_pwm_config\<close> detects no overflow.  It always
  returns 0, and each load register receives the computed cycle count modulo \<open>2^32\<close>
  (the count itself when it is below \<open>2^32\<close>).
\<close>

theorem config_truncates:
  "fst (xlnx_pwm_config a duty_ns period_ns x) = 0 \<and>
   unat (regs (snd (xlnx_pwm_config a duty_ns period_ns x)) TLR0) =
     unat (ns_to_cycles (clk_get_rate a x) period_ns) mod 2 ^ 32 \<and>
   unat (regs (snd (xlnx_pwm_config a duty_ns period_ns x)) TLR1) =
     unat (ns_to_cycles (clk_get_rate a x) duty_ns) mod 2 ^ 32"
proof -
  let ?p = "xlnx_pwm_plan a (clk_get_rate a x) duty_ns period_ns"
  have "unat (regs (xlnx_pwm_program ?p x) TLR0) =
      unat (ucast (to_ulong a (ns_to_cycles (clk_get_rate a x) period_ns)) :: u32)"
    by (simp only: program_regs plan_cycles)
  then have period: "unat (regs (xlnx_pwm_program ?p x) TLR0) =
      unat (ns_to_cycles (clk_get_rate a x) period_ns) mod 2 ^ 32"
    by (simp only: to_ulong_mod)
  have "unat (regs (xlnx_pwm_program ?p x) TLR1) =
      unat (ucast (to_ulong a (ns_to_cycles (clk_get_rate a x) duty_ns)) :: u32)"
    by (simp only: program_regs plan_cycles)
  then have duty: "unat (regs (xlnx_pwm_program ?p x) TLR1) =
      unat (ns_to_cycles (clk_get_rate a x) duty_ns) mod 2 ^ 32"
    by (simp only: to_ulong_mod)
  from period duty show ?thesis
    by (simp only: config_sel simp_thms)
qed

text \<open>
  At 4 GHz a period of 2 s is 8000000000 cycles; on a 32-bit kernel the call returns 0 and
  the register at 0x04 holds 3705032704.
\<close>

theorem config_overflow_counterexample:
  "ns_to_cycles 4000000000 2000000000 = 8000000000 \<and>
   \<not> unat (ns_to_cycles 4000000000 2000000000) < 2 ^ 32 \<and>
   fst (xlnx_pwm_config ILP32 1000000000 2000000000 (probed 4000000000)) = 0 \<and>
   regs (snd (xlnx_pwm_config ILP32 1000000000 2000000000 (probed 4000000000))) TLR0 =
     3705032704"
proof -
  have c: "ns_to_cycles 4000000000 2000000000 = 8000000000"
    by (simp add: ns_to_cycles_def)
  have "regs (snd (xlnx_pwm_config ILP32 1000000000 2000000000 (probed 4000000000))) TLR0 =
      ucast (to_ulong ILP32 (ns_to_cycles 4000000000 2000000000))"
    by (simp only: config_sel program_regs plan_cycles rate_probed32)
  also have "\<dots> = 3705032704"
    by (simp add: c ucast_to_ulong)
  finally show ?thesis
    by (simp add: c config_sel(1))
qed

section \<open>The quotient\<close>

text \<open>
  C7 (as the code has it): for a non-negative \<open>ns\<close> and a rate whose product
  with it is below \<open>2^64\<close> (every rate below \<open>2^33\<close> Hz), the conversion
  gives \<open>rate * ns div 1000000000\<close>, rounded down.  The product is taken in 64
  bits and wraps beyond.
\<close>

theorem cycles_floor:
  assumes "0 \<le> sint ns" and "unat clkrate * nat (sint ns) < 2 ^ 64"
  shows "unat (ns_to_cycles clkrate ns) = unat clkrate * nat (sint ns) div 1000000000"
  using assms by (rule ns_to_cycles_floor)

theorem cycles_floor_witness:
  "0 \<le> sint (20000000 :: s32) \<and>
   unat (100000000 :: u64) * nat (sint (20000000 :: s32)) < 2 ^ 64 \<and>
   unat (ns_to_cycles 100000000 20000000) = 2000000"
proof -
  have h1: "0 \<le> sint (20000000 :: s32)"
    by simp
  have h2: "unat (100000000 :: u64) * nat (sint (20000000 :: s32)) < 2 ^ 64"
    by simp
  from cycles_floor [OF h1 h2] h1 h2 show ?thesis
    by simp
qed

text \<open>
  At 10 GHz (a rate that a 64-bit \<open>unsigned long\<close> holds), 2 s are
  20000000000 cycles, and the conversion gives 1553255926.
\<close>

theorem cycles_floor_counterexample:
  "0 \<le> sint (2000000000 :: s32) \<and>
   unat (ns_to_cycles 10000000000 2000000000) = 1553255926 \<and>
   unat (10000000000 :: u64) * nat (sint (2000000000 :: s32)) div 1000000000 = 20000000000"
  by (simp add: ns_to_cycles_def)

section \<open>The order of the writes\<close>

text \<open>
  C8: for every request, \<open>xlnx_pwm_config\<close> adds to the trace, in this order:
  the request to enable the clock, zero to both control registers, the two load values, the
  load bit to both control registers, the two final control words (neither has the enable or
  the enable-all bit), the word of counter B again with enable-all, and the release of the
  clock.  That last write is the only one to a control register with enable-all set.
\<close>

theorem config_write_order:
  "trace (snd (xlnx_pwm_config a duty_ns period_ns x)) = trace x @
     [ClkEnable,
      RegWrite TCSR0 0, RegWrite TCSR1 0,
      RegWrite TLR0 (ucast (period_cycles (xlnx_pwm_plan a (clk_get_rate a x) duty_ns period_ns))),
      RegWrite TLR1 (ucast (duty_cycles (xlnx_pwm_plan a (clk_get_rate a x) duty_ns period_ns))),
      RegWrite TCSR0 (ucast TCSR_LOAD), RegWrite TCSR1 (ucast TCSR_LOAD),
      RegWrite TCSR0 (ucast (tcsr0 (xlnx_pwm_plan a (clk_get_rate a x) duty_ns period_ns))),
      RegWrite TCSR1 (ucast (tcsr1 (xlnx_pwm_plan a (clk_get_rate a x) duty_ns period_ns))),
      RegWrite TCSR1
        (ucast (tcsr1 (xlnx_pwm_plan a (clk_get_rate a x) duty_ns period_ns) OR TCSR_ENALL)),
      ClkDisable] \<and>
   tcsr0 (xlnx_pwm_plan a (clk_get_rate a x) duty_ns period_ns) AND (TCSR_ENT OR TCSR_ENALL) = 0 \<and>
   tcsr1 (xlnx_pwm_plan a (clk_get_rate a x) duty_ns period_ns) AND (TCSR_ENT OR TCSR_ENALL) = 0 \<and>
   filter carries_enall
     (drop (length (trace x)) (trace (snd (xlnx_pwm_config a duty_ns period_ns x)))) =
     [RegWrite TCSR1
        (ucast (tcsr1 (xlnx_pwm_plan a (clk_get_rate a x) duty_ns period_ns) OR TCSR_ENALL))]"
proof -
  let ?p = "xlnx_pwm_plan a (clk_get_rate a x) duty_ns period_ns"
  have cases: "(tcsr0 ?p = 530 \<or> tcsr0 ?p = 534) \<and> (tcsr1 ?p = 530 \<or> tcsr1 ?p = 534)"
    using plan_tcsr_cases [of a "clk_get_rate a x" duty_ns period_ns] by blast
  have t0: "tcsr0 ?p AND (TCSR_ENT OR TCSR_ENALL) = 0"
    using cases no_enable_bits by auto
  have t1: "tcsr1 ?p AND (TCSR_ENT OR TCSR_ENALL) = 0"
    using cases no_enable_bits by auto
  have once: "filter carries_enall (drop (length (trace x)) (trace (xlnx_pwm_program ?p x))) =
      [RegWrite TCSR1 (ucast (tcsr1 ?p OR TCSR_ENALL))]"
    using cases by (rule program_enall_once)
  show ?thesis
    using t0 t1 once by (simp only: config_sel program_trace simp_thms)
qed

section \<open>Configuring, then disabling\<close>

text \<open>
  C9 (as the code has it): for every request, \<open>xlnx_pwm_config\<close> followed by
  \<open>xlnx_pwm_disable\<close> leaves both control registers at zero.
  \<open>xlnx_pwm_config\<close> is a request to enable the clock, its nine writes and a release
  of the clock, made whatever the request returned (line 97); \<open>xlnx_pwm_disable\<close>
  releases once more, which pairs with the reference \<open>xlnx_pwm_enable\<close> takes.  When
  the request of \<open>xlnx_pwm_config\<close> succeeds, the balance is one higher during the
  writes, is back at its value after \<open>xlnx_pwm_config\<close>, and ends one below it
  after \<open>xlnx_pwm_disable\<close>.  When the request fails, no reference is taken, and
  the balance is one below after \<open>xlnx_pwm_config\<close> and two below after
  \<open>xlnx_pwm_disable\<close>.
\<close>

theorem config_then_disable:
  "regs (xlnx_pwm_disable (snd (xlnx_pwm_config a duty_ns period_ns x))) TCSR0 = 0 \<and>
   regs (xlnx_pwm_disable (snd (xlnx_pwm_config a duty_ns period_ns x))) TCSR1 = 0 \<and>
   snd (xlnx_pwm_config a duty_ns period_ns x) =
     clk_disable_unprepare
       (xlnx_pwm_writes (xlnx_pwm_plan a (clk_get_rate a x) duty_ns period_ns)
         (snd (clk_prepare_enable x))) \<and>
   clk_refs (xlnx_pwm_writes (xlnx_pwm_plan a (clk_get_rate a x) duty_ns period_ns)
       (snd (clk_prepare_enable x))) =
     (if clk_fail x = 0 then clk_refs x + 1 else clk_refs x) \<and>
   clk_refs (snd (xlnx_pwm_config a duty_ns period_ns x)) =
     (if clk_fail x = 0 then clk_refs x else clk_refs x - 1) \<and>
   clk_refs (xlnx_pwm_disable (snd (xlnx_pwm_config a duty_ns period_ns x))) =
     (if clk_fail x = 0 then clk_refs x - 1 else clk_refs x - 2) \<and>
   trace (xlnx_pwm_disable (snd (xlnx_pwm_config a duty_ns period_ns x))) = trace x @
     [ClkEnable,
      RegWrite TCSR0 0, RegWrite TCSR1 0,
      RegWrite TLR0 (ucast (period_cycles (xlnx_pwm_plan a (clk_get_rate a x) duty_ns period_ns))),
      RegWrite TLR1 (ucast (duty_cycles (xlnx_pwm_plan a (clk_get_rate a x) duty_ns period_ns))),
      RegWrite TCSR0 (ucast TCSR_LOAD), RegWrite TCSR1 (ucast TCSR_LOAD),
      RegWrite TCSR0 (ucast (tcsr0 (xlnx_pwm_plan a (clk_get_rate a x) duty_ns period_ns))),
      RegWrite TCSR1 (ucast (tcsr1 (xlnx_pwm_plan a (clk_get_rate a x) duty_ns period_ns))),
      RegWrite TCSR1
        (ucast (tcsr1 (xlnx_pwm_plan a (clk_get_rate a x) duty_ns period_ns) OR TCSR_ENALL)),
      ClkDisable,
      RegWrite TCSR0 0, RegWrite TCSR1 0,
      ClkDisable]"
proof -
  let ?p = "xlnx_pwm_plan a (clk_get_rate a x) duty_ns period_ns"
  let ?c = "snd (xlnx_pwm_config a duty_ns period_ns x)"
  have after: "?c = xlnx_pwm_program ?p x"
    by (rule config_sel(2))
  have zero: "regs (xlnx_pwm_disable ?c) TCSR0 = 0" "regs (xlnx_pwm_disable ?c) TCSR1 = 0"
    by (rule disable_regs)+
  have parts: "?c = clk_disable_unprepare (xlnx_pwm_writes ?p (snd (clk_prepare_enable x)))"
    unfolding after by (rule program_writes)
  have during: "clk_refs (xlnx_pwm_writes ?p (snd (clk_prepare_enable x))) =
      (if clk_fail x = 0 then clk_refs x + 1 else clk_refs x)"
    by (simp only: writes_refs clk_prepare_enable_sel)
  have configured: "clk_refs ?c = (if clk_fail x = 0 then clk_refs x else clk_refs x - 1)"
    unfolding after by (rule program_refs)
  have disabled: "clk_refs (xlnx_pwm_disable ?c) =
      (if clk_fail x = 0 then clk_refs x - 1 else clk_refs x - 2)"
    by (simp add: disable_refs configured)
  have events: "trace (xlnx_pwm_disable ?c) = trace x @
     [ClkEnable,
      RegWrite TCSR0 0, RegWrite TCSR1 0,
      RegWrite TLR0 (ucast (period_cycles ?p)), RegWrite TLR1 (ucast (duty_cycles ?p)),
      RegWrite TCSR0 (ucast TCSR_LOAD), RegWrite TCSR1 (ucast TCSR_LOAD),
      RegWrite TCSR0 (ucast (tcsr0 ?p)), RegWrite TCSR1 (ucast (tcsr1 ?p)),
      RegWrite TCSR1 (ucast (tcsr1 ?p OR TCSR_ENALL)),
      ClkDisable,
      RegWrite TCSR0 0, RegWrite TCSR1 0,
      ClkDisable]"
    unfolding after disable_trace program_trace by simp
  from zero parts during configured disabled events show ?thesis
    by (intro conjI)
qed

text \<open>
  With a clock that can be enabled, after \<open>xlnx_pwm_enable\<close> on a fresh device:
  the balance goes from 1 to 1 to 0.  With a clock that fails with -5 and a balance of 2:
  the balance goes from 2 to 1 to 0.
\<close>

theorem config_then_disable_witness:
  "clk_refs (snd (xlnx_pwm_enable (probed 100000000))) = 1 \<and>
   regs (xlnx_pwm_disable (snd (xlnx_pwm_config ILP32 5000000 20000000
     (snd (xlnx_pwm_enable (probed 100000000)))))) TCSR0 = 0 \<and>
   regs (xlnx_pwm_disable (snd (xlnx_pwm_config ILP32 5000000 20000000
     (snd (xlnx_pwm_enable (probed 100000000)))))) TCSR1 = 0 \<and>
   clk_refs (snd (xlnx_pwm_config ILP32 5000000 20000000
     (snd (xlnx_pwm_enable (probed 100000000))))) = 1 \<and>
   clk_refs (xlnx_pwm_disable (snd (xlnx_pwm_config ILP32 5000000 20000000
     (snd (xlnx_pwm_enable (probed 100000000)))))) = 0 \<and>
   clk_refs (snd (xlnx_pwm_config ILP32 5000000 20000000
     ((probed 100000000)\<lparr>clk_refs := 2, clk_fail := - 5\<rparr>))) = 1 \<and>
   clk_refs (xlnx_pwm_disable (snd (xlnx_pwm_config ILP32 5000000 20000000
     ((probed 100000000)\<lparr>clk_refs := 2, clk_fail := - 5\<rparr>)))) = 0"
proof -
  let ?ok = "snd (xlnx_pwm_enable (probed 100000000))"
  let ?bad = "(probed 100000000)\<lparr>clk_refs := 2, clk_fail := - 5\<rparr>"
  have h: "clk_fail ?ok = 0"
    by (simp add: enable_clk_sel probed_def)
  have r: "clk_refs ?ok = 1"
    by (simp add: enable_refs probed_def)
  have h': "clk_fail ?bad \<noteq> 0" and r': "clk_refs ?bad = 2"
    by simp_all
  note ok = config_then_disable [of ILP32 5000000 20000000 ?ok]
  note bad = config_then_disable [of ILP32 5000000 20000000 ?bad]
  have "regs (xlnx_pwm_disable (snd (xlnx_pwm_config ILP32 5000000 20000000 ?ok))) TCSR0 = 0"
    and "regs (xlnx_pwm_disable (snd (xlnx_pwm_config ILP32 5000000 20000000 ?ok))) TCSR1 = 0"
    using ok by blast+
  moreover from ok have "clk_refs (snd (xlnx_pwm_config ILP32 5000000 20000000 ?ok)) =
      (if clk_fail ?ok = 0 then clk_refs ?ok else clk_refs ?ok - 1)"
    by blast
  then have "clk_refs (snd (xlnx_pwm_config ILP32 5000000 20000000 ?ok)) = 1"
    by (simp add: h r)
  moreover from ok
  have "clk_refs (xlnx_pwm_disable (snd (xlnx_pwm_config ILP32 5000000 20000000 ?ok))) =
      (if clk_fail ?ok = 0 then clk_refs ?ok - 1 else clk_refs ?ok - 2)"
    by blast
  then have "clk_refs (xlnx_pwm_disable (snd (xlnx_pwm_config ILP32 5000000 20000000 ?ok)))
      = 0"
    by (simp add: h r)
  moreover from bad have "clk_refs (snd (xlnx_pwm_config ILP32 5000000 20000000 ?bad)) =
      (if clk_fail ?bad = 0 then clk_refs ?bad else clk_refs ?bad - 1)"
    by blast
  then have "clk_refs (snd (xlnx_pwm_config ILP32 5000000 20000000 ?bad)) = 1"
    by simp
  moreover from bad
  have "clk_refs (xlnx_pwm_disable (snd (xlnx_pwm_config ILP32 5000000 20000000 ?bad))) =
      (if clk_fail ?bad = 0 then clk_refs ?bad - 1 else clk_refs ?bad - 2)"
    by blast
  then have "clk_refs (xlnx_pwm_disable (snd (xlnx_pwm_config ILP32 5000000 20000000 ?bad)))
      = 0"
    by simp
  ultimately show ?thesis
    using r by (intro conjI)
qed

text \<open>
  After \<open>xlnx_pwm_enable\<close> on a fresh device the balance is 1; configuring
  and disabling leaves it at 0, not at 1.
\<close>

theorem config_then_disable_counterexample:
  "clk_refs (snd (xlnx_pwm_enable (probed 100000000))) = 1 \<and>
   clk_refs (xlnx_pwm_disable (snd (xlnx_pwm_config LP64 5000000 20000000
     (snd (xlnx_pwm_enable (probed 100000000)))))) = 0"
  by (simp add: disable_refs config_sel program_refs enable_refs enable_clk_sel probed_def)

section \<open>Enabling\<close>

text \<open>
  C10: \<open>xlnx_pwm_enable\<close> makes its eight writes (zero to both control
  registers, each load register rewritten with the value read back from it, the load bit to
  both control registers, the baseline word to counter A and the baseline word with
  enable-all to counter B) before it asks for the clock, and returns the result of that
  request.
\<close>

theorem enable_writes_before_clock:
  "trace (snd (xlnx_pwm_enable x)) = trace x @
     [RegWrite TCSR0 0, RegWrite TCSR1 0,
      RegRead TLR0, RegWrite TLR0 (regs x TLR0),
      RegRead TLR1, RegWrite TLR1 (regs x TLR1),
      RegWrite TCSR0 (ucast TCSR_LOAD), RegWrite TCSR1 (ucast TCSR_LOAD),
      RegWrite TCSR0 (ucast (TCSR_UDT OR TCSR_GENT OR TCSR_ARHT OR TCSR_PWMA)),
      RegWrite TCSR1
        (ucast (TCSR_UDT OR TCSR_GENT OR TCSR_ARHT OR TCSR_PWMA OR TCSR_ENALL)),
      ClkEnable] \<and>
   length (writes (trace (snd (xlnx_pwm_enable x)))) = length (writes (trace x)) + 8 \<and>
   fst (xlnx_pwm_enable x) = fst (clk_prepare_enable x) \<and>
   fst (xlnx_pwm_enable x) = clk_fail x"
proof -
  have result: "fst (xlnx_pwm_enable x) = clk_fail x"
    by (rule enable_result)
  have request: "fst (clk_prepare_enable x) = clk_fail x"
    by (rule clk_prepare_enable_sel(1))
  have count: "length (writes (trace (snd (xlnx_pwm_enable x)))) =
      length (writes (trace x)) + 8"
    unfolding enable_trace writes_append by simp
  from result request count show ?thesis
    by (simp only: enable_trace simp_thms)
qed

end
